theory Spec2Isabelle
  imports Complex_Main "HOL-Library.Multiset" "HOL-Library.AList"
begin

section \<open>JavaScript values\<close>

text \<open>
  A JavaScript number is a finite value, \<open>NaN\<close>, \<open>Infinity\<close> or \<open>-Infinity\<close>. The finite
  values are modelled as real numbers: the rounding of IEEE doubles, the overflow of a
  finite sum to \<open>Infinity\<close> and the negative zero are not part of this model, and every
  statement below about an exact value (a coefficient that is exactly 0, a sum that is
  exactly equal to another) is a statement about the arithmetic of the reals.
\<close>

datatype jsnum = Fin real | PInf | NInf | NaN

text \<open>\<open>a + b\<close> on numbers.\<close>

fun js_add :: "jsnum \<Rightarrow> jsnum \<Rightarrow> jsnum" where
  "js_add NaN b = NaN"
| "js_add a NaN = NaN"
| "js_add (Fin a) (Fin b) = Fin (a + b)"
| "js_add PInf NInf = NaN"
| "js_add NInf PInf = NaN"
| "js_add PInf b = PInf"
| "js_add a PInf = PInf"
| "js_add NInf b = NInf"
| "js_add a NInf = NInf"

text \<open>\<open>a > t\<close> and \<open>a >= t\<close> against a finite constant \<open>t\<close>; every comparison with
  \<open>NaN\<close> is false.\<close>

fun js_gt :: "jsnum \<Rightarrow> real \<Rightarrow> bool" where
  "js_gt (Fin a) t = (a > t)"
| "js_gt PInf t = True"
| "js_gt NInf t = False"
| "js_gt NaN t = False"

fun js_ge :: "jsnum \<Rightarrow> real \<Rightarrow> bool" where
  "js_ge (Fin a) t = (a \<ge> t)"
| "js_ge PInf t = True"
| "js_ge NInf t = False"
| "js_ge NaN t = False"

text \<open>\<open>Number.isNaN\<close>.\<close>

fun isNaN :: "jsnum \<Rightarrow> bool" where
  "isNaN NaN = True"
| "isNaN a = False"

text \<open>\<open>x || 0\<close> where \<open>x\<close> is a number or \<open>undefined\<close> (\<open>None\<close>): the falsy numbers are
  0 and \<open>NaN\<close>.\<close>

fun or_zero :: "jsnum option \<Rightarrow> jsnum" where
  "or_zero None = Fin 0"
| "or_zero (Some NaN) = Fin 0"
| "or_zero (Some a) = a"

text \<open>\<open>a ?? b\<close>: the left operand unless it is \<open>null\<close> or \<open>undefined\<close> (\<open>None\<close>).\<close>

fun nullish :: "'a option \<Rightarrow> 'a option \<Rightarrow> 'a option" where
  "nullish (Some a) b = Some a"
| "nullish None b = b"

text \<open>\<open>a || b\<close> on strings that may be absent: the empty string is falsy.\<close>

fun or_str :: "string option \<Rightarrow> string option \<Rightarrow> string option" where
  "or_str None b = b"
| "or_str (Some a) b = (if a = [] then b else Some a)"

subsection \<open>Strings\<close>

text \<open>\<open>String.prototype.toLowerCase\<close> on the ASCII letters, which is all an address in
  hexadecimal notation can hold.\<close>

definition lower_char :: "char \<Rightarrow> char" where
  "lower_char c =
     (case map_of (zip ''ABCDEFGHIJKLMNOPQRSTUVWXYZ'' ''abcdefghijklmnopqrstuvwxyz'') c of
        Some d \<Rightarrow> d
      | None \<Rightarrow> c)"

definition toLowerCase :: "string \<Rightarrow> string" where
  "toLowerCase s = map lower_char s"

definition startsWith :: "string \<Rightarrow> string \<Rightarrow> bool" where
  "startsWith s p = (take (length p) s = p)"

subsection \<open>\<open>Number.prototype.toFixed\<close>\<close>

definition digit_char :: "nat \<Rightarrow> char" where
  "digit_char d = ''0123456789'' ! d"

fun digits :: "nat \<Rightarrow> string" where
  "digits n = (if n < 10 then [digit_char n] else digits (n div 10) @ [digit_char (n mod 10)])"

declare digits.simps [simp del]

text \<open>
  \<open>x.toFixed(f)\<close> for a finite \<open>x\<close>, after ECMAScript 21.1.3.3: the sign, then the integer
  \<open>n\<close> nearest to \<open>x * 10^f\<close> (the larger one of two) in decimal digits, padded with
  zeros to \<open>f + 1\<close> digits, with a point before the last \<open>f\<close> digits. From \<open>10^21\<close> on the
  runtime prints the shortest digits that identify the double, in exponent notation;
  that text is a property of the double and is the parameter \<open>ns\<close> here.
\<close>

definition toFixed :: "(real \<Rightarrow> string) \<Rightarrow> nat \<Rightarrow> real \<Rightarrow> string" where
  "toFixed ns f x =
     (let s = (if x < 0 then ''-'' else []);
          y = (if x < 0 then - x else x)
      in if y \<ge> 10 ^ 21 then s @ ns y
         else
           let n = nat \<lfloor>y * 10 ^ f + 1 / 2\<rfloor>;
               m = digits n;
               m = (if f \<noteq> 0
                    then
                      let m = (if length m \<le> f
                               then replicate (f + 1 - length m) (CHR ''0'') @ m else m);
                          k = length m
                      in take (k - f) m @ ''.'' @ drop (k - f) m
                    else m)
           in s @ m)"

section \<open>Address normalizer\<close>

text \<open>
  \<open>normalizeAddress(value)\<close> of \<open>scripts/pull-holders.js\<close>. The address field of a row is a
  string or is absent (\<open>null\<close>, \<open>undefined\<close>), which is \<open>None\<close>; \<open>!value\<close> holds of an absent
  value and of the empty string.
\<close>

definition normalizeAddress :: "string option \<Rightarrow> string option" where
  "normalizeAddress value =
     (case value of
        None \<Rightarrow> None
      | Some raw \<Rightarrow>
          if raw = [] then None
          else if startsWith raw ''0x'' \<or> startsWith raw ''0X'' then Some (toLowerCase raw)
          else if startsWith raw [CHR 0x5C, CHR ''x''] \<or> startsWith raw [CHR 0x5C, CHR ''X'']
          then Some (''0x'' @ toLowerCase (drop 2 raw))
          else Some (''0x'' @ toLowerCase raw))"

section \<open>Metrics engine\<close>

record holder =
  address :: string
  balance :: real
  chain :: string

record top_report =
  count_top :: nat
  balance_top :: real
  percentage :: string

record bracket =
  min_b :: real
  max_b :: "real option"
  label_b :: string

record dist_entry =
  label_d :: string
  count_d :: nat
  totalBalance :: real

record metrics_report =
  top :: "(nat \<times> top_report) list"
  gini :: real
  stdDev :: real
  distribution :: "dist_entry list"

text \<open>
  \<open>calculateGiniCoefficient(values)\<close>. The comparator \<open>(a, b) => a - b\<close> sorts finite numbers
  ascending; the \<open>for\<close> loop runs \<open>i\<close> over \<open>0 .. n - 1\<close>, where \<open>sorted[i]\<close> is in range.
\<close>

definition calculateGiniCoefficient :: "real list \<Rightarrow> real" where
  "calculateGiniCoefficient values =
     (if values = [] then 0
      else
        let sorted = sort values;
            n = length sorted;
            totalSum = foldl (\<lambda>sum v. sum + v) 0 sorted
        in if totalSum = 0 then 0
           else
             let cumulative = foldl (\<lambda>c i. c + real (n - i) * sorted ! i) 0 [0..<n]
             in (real n + 1 - (2 * cumulative) / totalSum) / real n)"

text \<open>\<open>calculateStdDeviation(values)\<close>.\<close>

definition calculateStdDeviation :: "real list \<Rightarrow> real" where
  "calculateStdDeviation values =
     (if values = [] then 0
      else
        let mean = foldl (\<lambda>sum v. sum + v) 0 values / real (length values);
            variance = foldl (\<lambda>sum v. sum + (v - mean) ^ 2) 0 values / real (length values)
        in sqrt variance)"

text \<open>\<open>calculateDistribution(holders)\<close>; the upper bound \<open>Infinity\<close> of the last bracket is
  \<open>None\<close>.\<close>

definition brackets :: "bracket list" where
  "brackets =
     [\<lparr>min_b = 1000, max_b = Some 10000, label_b = ''1K-10K''\<rparr>,
      \<lparr>min_b = 10000, max_b = Some 100000, label_b = ''10K-100K''\<rparr>,
      \<lparr>min_b = 100000, max_b = Some 1000000, label_b = ''100K-1M''\<rparr>,
      \<lparr>min_b = 1000000, max_b = Some 10000000, label_b = ''1M-10M''\<rparr>,
      \<lparr>min_b = 10000000, max_b = Some 100000000, label_b = ''10M-100M''\<rparr>,
      \<lparr>min_b = 100000000, max_b = None, label_b = ''100M+''\<rparr>]"

definition in_bracket :: "bracket \<Rightarrow> holder \<Rightarrow> bool" where
  "in_bracket b h =
     (balance h \<ge> min_b b \<and> (case max_b b of None \<Rightarrow> True | Some m \<Rightarrow> balance h < m))"

definition calculateDistribution :: "holder list \<Rightarrow> dist_entry list" where
  "calculateDistribution holders =
     map (\<lambda>b. let inBracket = filter (in_bracket b) holders
              in \<lparr>label_d = label_b b,
                  count_d = length inBracket,
                  totalBalance = foldl (\<lambda>sum h. sum + balance h) 0 inBracket\<rparr>)
         brackets"

text \<open>
  \<open>computeMetrics(holders, totalRetailSupply)\<close>. The body of the \<open>forEach\<close> over
  \<open>[10, 25, 50, 100]\<close> is \<open>topReport\<close>; the object keys \<open>top10 .. top100\<close> are the numbers
  of the association list \<open>top\<close>. \<open>totalRetailSupply || 0\<close> replaces only a falsy supply,
  which among the reals is 0 itself.
\<close>

definition topReport :: "(real \<Rightarrow> string) \<Rightarrow> holder list \<Rightarrow> real \<Rightarrow> nat \<Rightarrow> top_report" where
  "topReport ns holders supply n =
     (let top = take n holders;
          topBalance = foldl (\<lambda>sum h. sum + balance h) 0 top
      in \<lparr>count_top = min n (length holders),
          balance_top = topBalance,
          percentage =
            (if supply > 0 then toFixed ns 2 ((topBalance / supply) * 100) else ''0.00'')\<rparr>)"

definition computeMetrics :: "(real \<Rightarrow> string) \<Rightarrow> holder list \<Rightarrow> real \<Rightarrow> metrics_report" where
  "computeMetrics ns holders totalRetailSupply =
     (let supply = (if totalRetailSupply = 0 then 0 else totalRetailSupply);
          balances = map balance holders
      in \<lparr>top = map (\<lambda>n. (n, topReport ns holders supply n)) [10, 25, 50, 100],
          gini = calculateGiniCoefficient balances,
          stdDev = calculateStdDeviation balances,
          distribution = calculateDistribution holders\<rparr>)"

section \<open>Per-chain aggregator\<close>

text \<open>
  The constants \<open>RETAIL_THRESHOLD\<close> and \<open>MEGA_HOLDER_THRESHOLD\<close>, the deny list
  \<open>exclusionSet\<close> (read from \<open>config/exclusions.json\<close>) and \<open>chainsConfig\<close> (read from
  \<open>config/chains.json\<close>) are global in the scripts; here they are the fields of a
  configuration value. The two scripts differ in the retail threshold.
\<close>

record chain_config =
  label_c :: "string option"

record config =
  RETAIL_THRESHOLD :: real
  MEGA_HOLDER_THRESHOLD :: real
  exclusionSet :: "string set"
  chainsConfig :: "(string \<times> chain_config) list"

definition dune_config :: "string set \<Rightarrow> (string \<times> chain_config) list \<Rightarrow> config" where
  "dune_config excl cs =
     \<lparr>RETAIL_THRESHOLD = 0, MEGA_HOLDER_THRESHOLD = 20000000000,
      exclusionSet = excl, chainsConfig = cs\<rparr>"

definition moralis_config :: "string set \<Rightarrow> (string \<times> chain_config) list \<Rightarrow> config" where
  "moralis_config excl cs =
     \<lparr>RETAIL_THRESHOLD = 1000, MEGA_HOLDER_THRESHOLD = 20000000000,
      exclusionSet = excl, chainsConfig = cs\<rparr>"

text \<open>
  A row of the query result. A balance field that is present is represented by the number
  that \<open>Number(...)\<close> reads from it (\<open>NaN\<close> for a value that is not numeric); a field that
  is absent or \<open>null\<close> is \<open>None\<close>.
\<close>

record row =
  row_address :: "string option"
  telcoin_balance :: "jsnum option"
  amount :: "jsnum option"

text \<open>The accumulators of the loop over the rows; \<open>excludedAddresses\<close> is a \<open>Set\<close>, kept
  here as the list of its elements in insertion order.\<close>

record acc =
  holders_acc :: "holder list"
  excludedAddresses_acc :: "string list"
  excludedBalance :: jsnum
  totalProcessed :: jsnum

definition acc_init :: acc where
  "acc_init = \<lparr>holders_acc = [], excludedAddresses_acc = [],
               excludedBalance = Fin 0, totalProcessed = Fin 0\<rparr>"

text \<open>\<open>Set.prototype.add\<close>.\<close>

definition set_add :: "'a \<Rightarrow> 'a list \<Rightarrow> 'a list" where
  "set_add x xs = (if x \<in> set xs then xs else xs @ [x])"

text \<open>\<open>Number(row.telcoin_balance ?? row.amount ?? 0)\<close>.\<close>

definition rowBalance :: "row \<Rightarrow> jsnum" where
  "rowBalance r =
     (case nullish (nullish (telcoin_balance r) (amount r)) (Some (Fin 0)) of
        Some n \<Rightarrow> n
      | None \<Rightarrow> NaN)"

text \<open>
  The callback of \<open>rows.forEach\<close> in \<open>processChain\<close>. A balance that reaches the last
  test is neither \<open>NaN\<close> nor above the mega-holder threshold, so one that passes it is
  finite (lemma \<open>retail_balance_finite\<close>): the holder record keeps the real number.
\<close>

definition processRow :: "config \<Rightarrow> string \<Rightarrow> acc \<Rightarrow> row \<Rightarrow> acc" where
  "processRow cfg lbl st r =
     (let address = normalizeAddress (row_address r);
          balance = rowBalance r
      in case address of
           None \<Rightarrow> st
         | Some a \<Rightarrow>
             if a = [] \<or> isNaN balance then st
             else
               let st = st\<lparr>totalProcessed := js_add (totalProcessed st) balance\<rparr>
               in if a \<in> exclusionSet cfg \<or> js_gt balance (MEGA_HOLDER_THRESHOLD cfg)
                  then st\<lparr>excludedAddresses_acc := set_add a (excludedAddresses_acc st),
                          excludedBalance := js_add (excludedBalance st) balance\<rparr>
                  else if js_ge balance (RETAIL_THRESHOLD cfg)
                  then (case balance of
                          Fin b \<Rightarrow>
                            st\<lparr>holders_acc :=
                                 holders_acc st @ [\<lparr>address = a, balance = b, chain = lbl\<rparr>]\<rparr>
                        | _ \<Rightarrow> st)
                  else st)"

record chain_result =
  key :: string
  label :: string
  holders :: "holder list"
  totalRetailSupply :: real
  retailHolderCount :: nat
  excludedAddresses :: "string list"
  excludedBalances :: "(string \<times> jsnum) list"
  totalProcessedByChain :: "(string \<times> jsnum) list"
  metrics :: metrics_report

text \<open>\<open>holders.sort((a, b) => b.balance - a.balance)\<close>: the stable sort, descending by
  balance.\<close>

definition sortDescending :: "holder list \<Rightarrow> holder list" where
  "sortDescending hs = sort_key (\<lambda>h. - balance h) hs"

text \<open>The object built after the loop, which is the same in both scripts.\<close>

definition chainResult :: "(real \<Rightarrow> string) \<Rightarrow> string \<Rightarrow> string \<Rightarrow> acc \<Rightarrow> chain_result" where
  "chainResult ns chainKey lbl st =
     (let holders = sortDescending (holders_acc st);
          totalRetailSupply = foldl (\<lambda>sum h. sum + balance h) 0 holders
      in \<lparr>key = chainKey,
          label = lbl,
          holders = holders,
          totalRetailSupply = totalRetailSupply,
          retailHolderCount = length holders,
          excludedAddresses = excludedAddresses_acc st,
          excludedBalances = [(chainKey, excludedBalance st)],
          totalProcessedByChain = [(chainKey, totalProcessed st)],
          metrics = computeMetrics ns holders totalRetailSupply\<rparr>)"

text \<open>\<open>processChain(chainKey, rows)\<close> of \<open>scripts/pull-holders.js\<close>; the label is
  \<open>chainsConfig[chainKey]?.label ?? chainKey\<close>.\<close>

definition chainLabel :: "config \<Rightarrow> string \<Rightarrow> string" where
  "chainLabel cfg chainKey =
     (case map_of (chainsConfig cfg) chainKey of
        None \<Rightarrow> chainKey
      | Some c \<Rightarrow> (case label_c c of None \<Rightarrow> chainKey | Some l \<Rightarrow> l))"

definition processChain :: "(real \<Rightarrow> string) \<Rightarrow> config \<Rightarrow> string \<Rightarrow> row list \<Rightarrow> chain_result" where
  "processChain ns cfg chainKey rows =
     (let lbl = chainLabel cfg chainKey
      in chainResult ns chainKey lbl (foldl (processRow cfg lbl) acc_init rows))"

subsection \<open>The second script\<close>

text \<open>
  \<open>fetchChainHolders(chainKey, chainConfig)\<close> of the second script reads the owners page
  by page over HTTP and runs the same classification on each owner. The requests, the
  cursor and the early end of the paging are the work of the HTTP client; the model takes
  the owners that the loop iterates over, in order. A balance field that is present is
  represented by the number that \<open>parseFloat(...)\<close> reads from it, and
  \<open>parseFloat('0')\<close> is 0.
\<close>

record owner =
  owner_address :: "string option"
  address_o :: "string option"
  balance_formatted :: "jsnum option"
  balance_o :: "jsnum option"

text \<open>\<open>(owner.owner_address || owner.address || '').toLowerCase()\<close>.\<close>

definition ownerAddress :: "owner \<Rightarrow> string" where
  "ownerAddress ow =
     (case or_str (or_str (owner_address ow) (address_o ow)) (Some []) of
        Some s \<Rightarrow> toLowerCase s
      | None \<Rightarrow> [])"

text \<open>\<open>parseFloat(owner.balance_formatted ?? owner.balance ?? '0')\<close>.\<close>

definition ownerBalance :: "owner \<Rightarrow> jsnum" where
  "ownerBalance ow =
     (case nullish (nullish (balance_formatted ow) (balance_o ow)) (Some (Fin 0)) of
        Some n \<Rightarrow> n
      | None \<Rightarrow> NaN)"

text \<open>The body of \<open>for (const owner of results)\<close>.\<close>

definition processOwner :: "config \<Rightarrow> string \<Rightarrow> acc \<Rightarrow> owner \<Rightarrow> acc" where
  "processOwner cfg lbl st ow =
     (let address = ownerAddress ow;
          balance = ownerBalance ow
      in if address = [] \<or> isNaN balance then st
         else
           let st = st\<lparr>totalProcessed := js_add (totalProcessed st) balance\<rparr>
           in if address \<in> exclusionSet cfg \<or> js_gt balance (MEGA_HOLDER_THRESHOLD cfg)
              then st\<lparr>excludedAddresses_acc := set_add address (excludedAddresses_acc st),
                      excludedBalance := js_add (excludedBalance st) balance\<rparr>
              else if js_ge balance (RETAIL_THRESHOLD cfg)
              then (case balance of
                      Fin b \<Rightarrow>
                        st\<lparr>holders_acc :=
                             holders_acc st @ [\<lparr>address = address, balance = b, chain = lbl\<rparr>]\<rparr>
                    | _ \<Rightarrow> st)
              else st)"

definition fetchChainHolders ::
  "(real \<Rightarrow> string) \<Rightarrow> config \<Rightarrow> string \<Rightarrow> string \<Rightarrow> owner list \<Rightarrow> chain_result" where
  "fetchChainHolders ns cfg chainKey lbl owners =
     chainResult ns chainKey lbl (foldl (processOwner cfg lbl) acc_init owners)"

section \<open>Cross-chain combiner\<close>

text \<open>
  \<open>buildCombinedDataset(chainResults)\<close>. \<open>chainResults\<close> is the list of the entries of the
  object in the order of \<open>Object.entries\<close>; the two objects keyed by chain are association
  lists, and an assignment to a key keeps the place of a key that is present and appends
  a new one.
\<close>

record combined_acc =
  combinedHolders :: "holder list"
  excludedAddresses_c :: "string list"
  excludedBalances_c :: "(string \<times> jsnum) list"
  totalProcessedByChain_c :: "(string \<times> jsnum) list"
  totalRetailSupply_c :: real

definition combined_init :: combined_acc where
  "combined_init = \<lparr>combinedHolders = [], excludedAddresses_c = [], excludedBalances_c = [],
                    totalProcessedByChain_c = [], totalRetailSupply_c = 0\<rparr>"

text \<open>\<open>target[chainKey] = (target[chainKey] || 0) + value\<close> for every entry of an object.\<close>

definition mergeByChain :: "(string \<times> jsnum) list \<Rightarrow> (string \<times> jsnum) list \<Rightarrow> (string \<times> jsnum) list" where
  "mergeByChain target entries =
     foldl (\<lambda>t (chainKey, v). AList.update chainKey (js_add (or_zero (map_of t chainKey)) v) t)
       target entries"

text \<open>The body of \<open>for (const [key, data] of Object.entries(chainResults))\<close>.\<close>

definition combineStep :: "combined_acc \<Rightarrow> string \<times> chain_result \<Rightarrow> combined_acc" where
  "combineStep st entry =
     (let data = snd entry
      in \<lparr>combinedHolders =
            foldl (\<lambda>hs h. hs @ [h\<lparr>chain := label data\<rparr>]) (combinedHolders st) (holders data),
          excludedAddresses_c =
            foldl (\<lambda>s a. set_add a s) (excludedAddresses_c st) (excludedAddresses data),
          excludedBalances_c = mergeByChain (excludedBalances_c st) (excludedBalances data),
          totalProcessedByChain_c =
            mergeByChain (totalProcessedByChain_c st) (totalProcessedByChain data),
          totalRetailSupply_c = totalRetailSupply_c st + totalRetailSupply data\<rparr>)"

definition buildCombinedDataset :: "(real \<Rightarrow> string) \<Rightarrow> (string \<times> chain_result) list \<Rightarrow> chain_result" where
  "buildCombinedDataset ns chainResults =
     (let st = foldl combineStep combined_init chainResults;
          combinedHolders = sortDescending (combinedHolders st);
          totalRetailSupply = totalRetailSupply_c st
      in \<lparr>key = ''combined'',
          label = ''Combined'',
          holders = combinedHolders,
          totalRetailSupply = totalRetailSupply,
          retailHolderCount = length combinedHolders,
          excludedAddresses = excludedAddresses_c st,
          excludedBalances = excludedBalances_c st,
          totalProcessedByChain = totalProcessedByChain_c st,
          metrics = computeMetrics ns combinedHolders totalRetailSupply\<rparr>)"

section \<open>Notions used in the statements\<close>



text \<open>
  The cascade of conditions in the loop body, as a tag: which of the four exits of the
  body a record with the given address and balance takes. \<open>classify\<close> follows the order
  of the tests in the source; \<open>absorb\<close> is what each exit does to the accumulators, and
  the lemmas \<open>processRow_absorb\<close> and \<open>processOwner_absorb\<close> show that the two loop bodies
  are exactly this.
\<close>

datatype row_class = Dropped | Excluded | Retail | SubThreshold

definition classify :: "config \<Rightarrow> string option \<Rightarrow> jsnum \<Rightarrow> row_class" where
  "classify cfg addr bal =
     (case addr of
        None \<Rightarrow> Dropped
      | Some a \<Rightarrow>
          if a = [] \<or> isNaN bal then Dropped
          else if a \<in> exclusionSet cfg \<or> js_gt bal (MEGA_HOLDER_THRESHOLD cfg) then Excluded
          else if js_ge bal (RETAIL_THRESHOLD cfg) then Retail
          else SubThreshold)"

text \<open>The address and the balance that the loop body reads from a row, and from an owner
  of the second script.\<close>

definition rowView :: "row \<Rightarrow> string option \<times> jsnum" where
  "rowView r = (normalizeAddress (row_address r), rowBalance r)"

definition ownerView :: "owner \<Rightarrow> string option \<times> jsnum" where
  "ownerView ow = (Some (ownerAddress ow), ownerBalance ow)"

definition rowClass :: "config \<Rightarrow> row \<Rightarrow> row_class" where
  "rowClass cfg r = classify cfg (fst (rowView r)) (snd (rowView r))"

definition ownerClass :: "config \<Rightarrow> owner \<Rightarrow> row_class" where
  "ownerClass cfg ow = classify cfg (fst (ownerView ow)) (snd (ownerView ow))"

text \<open>The holder that a retail record becomes, the address that an excluded record adds
  to the set, and the amounts that a record adds to the two totals.\<close>

definition retailHolder :: "config \<Rightarrow> string \<Rightarrow> string option \<times> jsnum \<Rightarrow> holder option" where
  "retailHolder cfg lbl v =
     (case (classify cfg (fst v) (snd v), fst v, snd v) of
        (Retail, Some a, Fin b) \<Rightarrow> Some \<lparr>address = a, balance = b, chain = lbl\<rparr>
      | _ \<Rightarrow> None)"

definition excludedAddress :: "config \<Rightarrow> string option \<times> jsnum \<Rightarrow> string option" where
  "excludedAddress cfg v = (if classify cfg (fst v) (snd v) = Excluded then fst v else None)"

definition counted :: "config \<Rightarrow> string option \<times> jsnum \<Rightarrow> jsnum option" where
  "counted cfg v = (if classify cfg (fst v) (snd v) = Dropped then None else Some (snd v))"

definition excludedAmount :: "config \<Rightarrow> string option \<times> jsnum \<Rightarrow> jsnum option" where
  "excludedAmount cfg v = (if classify cfg (fst v) (snd v) = Excluded then Some (snd v) else None)"

definition absorb :: "config \<Rightarrow> string \<Rightarrow> acc \<Rightarrow> string option \<times> jsnum \<Rightarrow> acc" where
  "absorb cfg lbl st v =
     \<lparr>holders_acc = holders_acc st @ (case retailHolder cfg lbl v of None \<Rightarrow> [] | Some h \<Rightarrow> [h]),
      excludedAddresses_acc =
        (case excludedAddress cfg v of
           None \<Rightarrow> excludedAddresses_acc st
         | Some a \<Rightarrow> set_add a (excludedAddresses_acc st)),
      excludedBalance =
        (case excludedAmount cfg v of
           None \<Rightarrow> excludedBalance st
         | Some b \<Rightarrow> js_add (excludedBalance st) b),
      totalProcessed =
        (case counted cfg v of
           None \<Rightarrow> totalProcessed st
         | Some b \<Rightarrow> js_add (totalProcessed st) b)\<rparr>"



section \<open>Sums\<close>



section \<open>Gini coefficient\<close>

















section \<open>Standard deviation\<close>








section \<open>Classification of the records\<close>


lemma processRow_absorb: "processRow cfg lbl st r = absorb cfg lbl st (rowView r)"
proof (cases "normalizeAddress (row_address r)")
  case None
  then show ?thesis
    by (simp add: processRow_def absorb_def rowView_def retailHolder_def excludedAddress_def
        excludedAmount_def counted_def classify_def)
next
  case (Some a)
  show ?thesis
  proof (cases "rowBalance r")
    case (Fin b)
    with Some show ?thesis
      by (simp add: processRow_def absorb_def rowView_def retailHolder_def excludedAddress_def
          excludedAmount_def counted_def classify_def Let_def)
  qed (use Some in \<open>simp_all add: processRow_def absorb_def rowView_def retailHolder_def
          excludedAddress_def excludedAmount_def counted_def classify_def Let_def\<close>)
qed

lemma processOwner_absorb: "processOwner cfg lbl st ow = absorb cfg lbl st (ownerView ow)"
proof (cases "ownerBalance ow")
  case (Fin b)
  then show ?thesis
    by (simp add: processOwner_def absorb_def ownerView_def retailHolder_def excludedAddress_def
        excludedAmount_def counted_def classify_def Let_def)
qed (simp_all add: processOwner_def absorb_def ownerView_def retailHolder_def
          excludedAddress_def excludedAmount_def counted_def classify_def Let_def)


lemma foldl_absorb:
  "foldl (absorb cfg lbl) st vs =
     \<lparr>holders_acc = holders_acc st @ List.map_filter (retailHolder cfg lbl) vs,
      excludedAddresses_acc =
        foldl (\<lambda>s a. set_add a s) (excludedAddresses_acc st) (List.map_filter (excludedAddress cfg) vs),
      excludedBalance = foldl js_add (excludedBalance st) (List.map_filter (excludedAmount cfg) vs),
      totalProcessed = foldl js_add (totalProcessed st) (List.map_filter (counted cfg) vs)\<rparr>"
proof (induction vs arbitrary: st)
  case Nil
  show ?case by (simp add: List.map_filter_simps)
next
  case (Cons v vs)
  show ?case
    by (simp add: Cons.IH List.map_filter_simps) (simp add: absorb_def split: option.splits)
qed

lemma foldl_processRow:
  "foldl (processRow cfg lbl) st rows = foldl (absorb cfg lbl) st (map rowView rows)"
  by (induction rows arbitrary: st) (simp_all add: processRow_absorb)

lemma foldl_processOwner:
  "foldl (processOwner cfg lbl) st owners = foldl (absorb cfg lbl) st (map ownerView owners)"
  by (induction owners arbitrary: st) (simp_all add: processOwner_absorb)

lemma set_foldl_set_add: "set (foldl (\<lambda>s a. set_add a s) xs ys) = set xs \<union> set ys"
  by (induction ys arbitrary: xs) (auto simp: set_add_def)

lemma distinct_foldl_set_add: "distinct xs \<Longrightarrow> distinct (foldl (\<lambda>s a. set_add a s) xs ys)"
  by (induction ys arbitrary: xs) (auto simp: set_add_def)

lemma set_sortDescending: "set (sortDescending hs) = set hs"
  by (simp add: sortDescending_def)

lemma mset_sortDescending: "mset (sortDescending hs) = mset hs"
  by (simp add: sortDescending_def)

lemma length_sortDescending: "length (sortDescending hs) = length hs"
  by (simp add: sortDescending_def)

lemma holders_chainResult: "holders (chainResult ns k lbl st) = sortDescending (holders_acc st)"
  by (simp add: chainResult_def Let_def)

lemma holders_processChain:
  "holders (processChain ns cfg chainKey rows) =
     sortDescending (List.map_filter (retailHolder cfg (chainLabel cfg chainKey)) (map rowView rows))"
  by (simp add: processChain_def Let_def holders_chainResult foldl_processRow foldl_absorb acc_init_def)

lemma holders_fetchChainHolders:
  "holders (fetchChainHolders ns cfg chainKey lbl owners) =
     sortDescending (List.map_filter (retailHolder cfg lbl) (map ownerView owners))"
  by (simp add: fetchChainHolders_def holders_chainResult foldl_processOwner foldl_absorb acc_init_def)



lemma retailHolder_SomeD:
  assumes "retailHolder cfg lbl v = Some h"
  shows "classify cfg (fst v) (snd v) = Retail \<and> fst v = Some (address h) \<and>
         snd v = Fin (balance h) \<and> chain h = lbl"
  using assms
  by (cases v) (auto simp: retailHolder_def split: row_class.splits option.splits jsnum.splits)

lemma classify_Retail_bounds:
  assumes "classify cfg addr (Fin b) = Retail"
  shows "RETAIL_THRESHOLD cfg \<le> b \<and> b \<le> MEGA_HOLDER_THRESHOLD cfg"
  using assms by (auto simp: classify_def split: option.splits if_splits)

lemma retailHolder_bounds:
  assumes "h \<in> set (List.map_filter (retailHolder cfg lbl) vs)"
  shows "RETAIL_THRESHOLD cfg \<le> balance h \<and> balance h \<le> MEGA_HOLDER_THRESHOLD cfg"
proof -
  from assms obtain v where "retailHolder cfg lbl v = Some h"
    by (auto simp: List.map_filter_def)
  then have "classify cfg (fst v) (Fin (balance h)) = Retail"
    using retailHolder_SomeD by metis
  then show ?thesis by (rule classify_Retail_bounds)
qed

text \<open>
  Claim C7. Every holder of the aggregate of a chain has a balance between the retail
  threshold and the mega-holder threshold, both included, for any rows, deny list and
  thresholds, in both scripts. (No order between the two thresholds is needed.)
\<close>

theorem holder_balance_within_thresholds:
  "(\<forall>h \<in> set (holders (processChain ns cfg chainKey rows)).
      RETAIL_THRESHOLD cfg \<le> balance h \<and> balance h \<le> MEGA_HOLDER_THRESHOLD cfg) \<and>
   (\<forall>h \<in> set (holders (fetchChainHolders ns cfg chainKey lbl owners)).
      RETAIL_THRESHOLD cfg \<le> balance h \<and> balance h \<le> MEGA_HOLDER_THRESHOLD cfg)"
  by (simp add: holders_processChain holders_fetchChainHolders set_sortDescending retailHolder_bounds)


text \<open>The definitions that a run on concrete rows unfolds.\<close>

lemmas run_defs =
  processChain_def fetchChainHolders_def chainResult_def chainLabel_def processRow_def
  processOwner_def rowBalance_def ownerBalance_def ownerAddress_def normalizeAddress_def
  startsWith_def toLowerCase_def lower_char_def acc_init_def set_add_def sortDescending_def
  dune_config_def moralis_config_def Let_def

theorem holder_balance_within_thresholds_witness:
  "holders (processChain (\<lambda>x. []) (dune_config {} []) ''ethereum''
      [\<lparr>row_address = Some ''0xAB'', telcoin_balance = Some (Fin 5000), amount = None\<rparr>])
     = [\<lparr>address = ''0xab'', balance = 5000, chain = ''ethereum''\<rparr>] \<and>
   RETAIL_THRESHOLD (dune_config {} []) \<le> 5000 \<and>
   5000 \<le> MEGA_HOLDER_THRESHOLD (dune_config {} [])"
  using holder_balance_within_thresholds [of "\<lambda>x. []" "dune_config {} []" "''ethereum''"
      "[\<lparr>row_address = Some ''0xAB'', telcoin_balance = Some (Fin 5000), amount = None\<rparr>]"]
  by (simp add: run_defs)

lemma toLowerCase_Nil_iff: "toLowerCase s = [] \<longleftrightarrow> s = []"
  by (simp add: toLowerCase_def)

lemma normalizeAddress_not_empty: "normalizeAddress v \<noteq> Some []"
  by (simp add: normalizeAddress_def toLowerCase_Nil_iff split: option.splits)

lemma js_add_zero: "js_add x (Fin 0) = x"
  by (cases x) simp_all

lemma classify_Dropped_iff:
  "classify cfg addr bal = Dropped \<longleftrightarrow> addr = None \<or> addr = Some [] \<or> bal = NaN"
  by (cases bal) (auto simp: classify_def split: option.splits)

text \<open>
  Claim C2. The test for the deny list and the mega-holder threshold comes before the
  test for the retail threshold: a record with a normalized address and a balance other
  than \<open>NaN\<close> whose address is on the deny list, or whose balance is above the mega-holder
  threshold, is excluded whatever the retail threshold \<open>t\<close> is: its balance is added to
  \<open>totalProcessed\<close> and \<open>excludedBalance\<close>, its address to \<open>excludedAddresses\<close>, and the
  holders are unchanged. The witness is the address on the deny list with balance 5000
  under the retail threshold 1000.
\<close>

theorem exclusion_precedes_retail_check:
  "(normalizeAddress (row_address r) = Some a \<and> rowBalance r \<noteq> NaN \<and>
    (a \<in> exclusionSet cfg \<or> js_gt (rowBalance r) (MEGA_HOLDER_THRESHOLD cfg)) \<longrightarrow>
      rowClass (cfg\<lparr>RETAIL_THRESHOLD := t\<rparr>) r = Excluded \<and>
      processRow (cfg\<lparr>RETAIL_THRESHOLD := t\<rparr>) lbl st r =
        st\<lparr>totalProcessed := js_add (totalProcessed st) (rowBalance r),
           excludedAddresses_acc := set_add a (excludedAddresses_acc st),
           excludedBalance := js_add (excludedBalance st) (rowBalance r)\<rparr>) \<and>
   (ownerAddress ow \<noteq> [] \<and> ownerBalance ow \<noteq> NaN \<and>
    (ownerAddress ow \<in> exclusionSet cfg \<or> js_gt (ownerBalance ow) (MEGA_HOLDER_THRESHOLD cfg)) \<longrightarrow>
      ownerClass (cfg\<lparr>RETAIL_THRESHOLD := t\<rparr>) ow = Excluded \<and>
      processOwner (cfg\<lparr>RETAIL_THRESHOLD := t\<rparr>) lbl st ow =
        st\<lparr>totalProcessed := js_add (totalProcessed st) (ownerBalance ow),
           excludedAddresses_acc := set_add (ownerAddress ow) (excludedAddresses_acc st),
           excludedBalance := js_add (excludedBalance st) (ownerBalance ow)\<rparr>)"
proof -
  have ne: "normalizeAddress (row_address r) = Some a \<Longrightarrow> a \<noteq> []"
    using normalizeAddress_not_empty [of "row_address r"] by auto
  have nan: "\<And>b. b \<noteq> NaN \<Longrightarrow> \<not> isNaN b"
    subgoal for b by (cases b) simp_all
    done
  show ?thesis
    using ne nan
    by (auto simp: rowClass_def ownerClass_def rowView_def ownerView_def classify_def
        processRow_def processOwner_def Let_def)
qed

theorem exclusion_precedes_retail_check_witness:
  "normalizeAddress (Some ''0xDEAD'') = Some ''0xdead'' \<and>
   rowClass (moralis_config {''0xdead''} [])
     \<lparr>row_address = Some ''0xDEAD'', telcoin_balance = Some (Fin 5000), amount = None\<rparr> = Excluded \<and>
   processRow (moralis_config {''0xdead''} []) ''Ethereum'' acc_init
     \<lparr>row_address = Some ''0xDEAD'', telcoin_balance = Some (Fin 5000), amount = None\<rparr> =
     \<lparr>holders_acc = [], excludedAddresses_acc = [''0xdead''],
      excludedBalance = Fin 5000, totalProcessed = Fin 5000\<rparr> \<and>
   processOwner (moralis_config {''0xdead''} []) ''Ethereum'' acc_init
     \<lparr>owner_address = Some ''0xDEAD'', address_o = None,
      balance_formatted = Some (Fin 5000), balance_o = None\<rparr> =
     \<lparr>holders_acc = [], excludedAddresses_acc = [''0xdead''],
      excludedBalance = Fin 5000, totalProcessed = Fin 5000\<rparr>"
  using exclusion_precedes_retail_check [where
      r = "\<lparr>row_address = Some ''0xDEAD'', telcoin_balance = Some (Fin 5000), amount = None\<rparr>"
      and a = "''0xdead''" and cfg = "moralis_config {''0xdead''} []"
      and ow = "\<lparr>owner_address = Some ''0xDEAD'', address_o = None,
        balance_formatted = Some (Fin 5000), balance_o = None\<rparr>"
      and t = 1000 and lbl = "''Ethereum''" and st = acc_init]
  by (simp add: run_defs)


text \<open>
  Claim C3, as amended. A record is dropped, leaving every accumulator as it was, if and
  only if its address normalizes to null (or is empty) or its balance is \<open>NaN\<close>; any other
  record adds its balance to \<open>totalProcessed\<close>. The test in the source is
  \<open>Number.isNaN\<close>, so an infinite balance is not dropped.
\<close>

theorem dropped_iff_no_address_or_NaN:
  "(rowClass cfg r = Dropped \<longleftrightarrow> normalizeAddress (row_address r) = None \<or> rowBalance r = NaN) \<and>
   (rowClass cfg r = Dropped \<longrightarrow> processRow cfg lbl st r = st) \<and>
   (rowClass cfg r \<noteq> Dropped \<longrightarrow>
      totalProcessed (processRow cfg lbl st r) = js_add (totalProcessed st) (rowBalance r)) \<and>
   (ownerClass cfg ow = Dropped \<longleftrightarrow> ownerAddress ow = [] \<or> ownerBalance ow = NaN) \<and>
   (ownerClass cfg ow = Dropped \<longrightarrow> processOwner cfg lbl st ow = st) \<and>
   (ownerClass cfg ow \<noteq> Dropped \<longrightarrow>
      totalProcessed (processOwner cfg lbl st ow) = js_add (totalProcessed st) (ownerBalance ow))"
proof -
  have r1: "rowClass cfg r = Dropped \<longleftrightarrow> normalizeAddress (row_address r) = None \<or> rowBalance r = NaN"
    using normalizeAddress_not_empty [of "row_address r"]
    by (auto simp: rowClass_def rowView_def classify_Dropped_iff)
  have o1: "ownerClass cfg ow = Dropped \<longleftrightarrow> ownerAddress ow = [] \<or> ownerBalance ow = NaN"
    by (auto simp: ownerClass_def ownerView_def classify_Dropped_iff)
  have r2: "rowClass cfg r = Dropped \<longrightarrow> processRow cfg lbl st r = st"
    by (simp add: processRow_absorb absorb_def rowClass_def retailHolder_def excludedAddress_def
        excludedAmount_def counted_def)
  have o2: "ownerClass cfg ow = Dropped \<longrightarrow> processOwner cfg lbl st ow = st"
    by (simp add: processOwner_absorb absorb_def ownerClass_def retailHolder_def excludedAddress_def
        excludedAmount_def counted_def)
  have r3: "rowClass cfg r \<noteq> Dropped \<longrightarrow>
      totalProcessed (processRow cfg lbl st r) = js_add (totalProcessed st) (rowBalance r)"
    by (simp add: processRow_absorb absorb_def rowClass_def counted_def rowView_def)
  have o3: "ownerClass cfg ow \<noteq> Dropped \<longrightarrow>
      totalProcessed (processOwner cfg lbl st ow) = js_add (totalProcessed st) (ownerBalance ow)"
    by (simp add: processOwner_absorb absorb_def ownerClass_def counted_def ownerView_def)
  from r1 r2 r3 o1 o2 o3 show ?thesis by blast
qed

theorem dropped_iff_no_address_or_NaN_witness:
  "rowClass (dune_config {} []) \<lparr>row_address = Some ''0xab'', telcoin_balance = Some NaN, amount = None\<rparr>
     = Dropped \<and>
   processRow (dune_config {} []) ''Ethereum'' acc_init
     \<lparr>row_address = Some ''0xab'', telcoin_balance = Some NaN, amount = None\<rparr> = acc_init \<and>
   rowClass (dune_config {} []) \<lparr>row_address = Some [], telcoin_balance = Some (Fin 7), amount = None\<rparr>
     = Dropped \<and>
   rowClass (dune_config {} []) \<lparr>row_address = Some ''0xab'', telcoin_balance = Some (Fin 7), amount = None\<rparr>
     \<noteq> Dropped \<and>
   totalProcessed (processRow (dune_config {} []) ''Ethereum'' acc_init
     \<lparr>row_address = Some ''0xab'', telcoin_balance = Some (Fin 7), amount = None\<rparr>) = Fin 7 \<and>
   ownerClass (moralis_config {} [])
     \<lparr>owner_address = None, address_o = Some [], balance_formatted = Some (Fin 7), balance_o = None\<rparr>
     = Dropped \<and>
   ownerClass (moralis_config {} [])
     \<lparr>owner_address = None, address_o = Some ''0xAB'', balance_formatted = None, balance_o = Some (Fin 7)\<rparr>
     \<noteq> Dropped \<and>
   totalProcessed (processOwner (moralis_config {} []) ''Ethereum'' acc_init
     \<lparr>owner_address = None, address_o = Some ''0xAB'', balance_formatted = None, balance_o = Some (Fin 7)\<rparr>)
     = Fin 7"
  using
    dropped_iff_no_address_or_NaN [where cfg = "dune_config {} []" and lbl = "''Ethereum''"
      and st = acc_init
      and r = "\<lparr>row_address = Some ''0xab'', telcoin_balance = Some NaN, amount = None\<rparr>"
      and ow = "\<lparr>owner_address = None, address_o = Some [], balance_formatted = Some (Fin 7),
                 balance_o = None\<rparr>"]
    dropped_iff_no_address_or_NaN [where cfg = "moralis_config {} []" and lbl = "''Ethereum''"
      and st = acc_init
      and r = "\<lparr>row_address = Some [], telcoin_balance = Some (Fin 7), amount = None\<rparr>"
      and ow = "\<lparr>owner_address = None, address_o = Some ''0xAB'', balance_formatted = None,
                 balance_o = Some (Fin 7)\<rparr>"]
  by (simp add: run_defs rowClass_def ownerClass_def rowView_def ownerView_def classify_def)

text \<open>
  Claim C3 as stated, that a balance which is not finite is dropped, fails for the two
  infinities: \<open>Infinity\<close> is above the mega-holder threshold, so the record is excluded,
  and \<open>-Infinity\<close> is added to \<open>totalProcessed\<close>.
\<close>

theorem infinite_balance_counterexample:
  "processRow (dune_config {} []) ''Ethereum'' acc_init
     \<lparr>row_address = Some ''0xabc'', telcoin_balance = Some PInf, amount = None\<rparr> =
     \<lparr>holders_acc = [], excludedAddresses_acc = [''0xabc''],
      excludedBalance = PInf, totalProcessed = PInf\<rparr> \<and>
   processRow (dune_config {} []) ''Ethereum'' acc_init
     \<lparr>row_address = Some ''0xabc'', telcoin_balance = Some NInf, amount = None\<rparr> =
     \<lparr>holders_acc = [], excludedAddresses_acc = [],
      excludedBalance = Fin 0, totalProcessed = NInf\<rparr> \<and>
   processOwner (moralis_config {} []) ''Ethereum'' acc_init
     \<lparr>owner_address = Some ''0xabc'', address_o = None, balance_formatted = Some PInf, balance_o = None\<rparr> =
     \<lparr>holders_acc = [], excludedAddresses_acc = [''0xabc''],
      excludedBalance = PInf, totalProcessed = PInf\<rparr>"
  by (simp add: run_defs)












text \<open>
  Claim C10, as amended. A row with neither balance field has the balance 0 and adds 0
  to \<open>totalProcessed\<close>. With the thresholds of \<open>scripts/pull-holders.js\<close> (retail
  threshold 0), such a row whose address normalizes to an address that is not on the deny
  list becomes a holder with balance 0, counted in \<open>retailHolderCount\<close>.
\<close>

theorem absent_balance_is_zero:
  "(telcoin_balance r = None \<and> amount r = None \<longrightarrow>
      rowBalance r = Fin 0 \<and>
      totalProcessed (processRow cfg lbl st r) = js_add (totalProcessed st) (Fin 0) \<and>
      (normalizeAddress (row_address r) = Some a \<and> a \<notin> excl \<longrightarrow>
         processRow (dune_config excl cs) lbl st r =
           st\<lparr>totalProcessed := js_add (totalProcessed st) (Fin 0),
              holders_acc := holders_acc st @ [\<lparr>address = a, balance = 0, chain = lbl\<rparr>]\<rparr> \<and>
         (r \<in> set rows \<longrightarrow>
            \<lparr>address = a, balance = 0, chain = chainLabel (dune_config excl cs) chainKey\<rparr>
              \<in> set (holders (processChain ns (dune_config excl cs) chainKey rows)) \<and>
            retailHolderCount (processChain ns (dune_config excl cs) chainKey rows) =
              length (holders (processChain ns (dune_config excl cs) chainKey rows))))) \<and>
   (balance_formatted ow = None \<and> balance_o ow = None \<longrightarrow>
      ownerBalance ow = Fin 0 \<and>
      totalProcessed (processOwner cfg lbl st ow) = js_add (totalProcessed st) (Fin 0))"
proof -
  have nan: "\<not> isNaN (Fin 0)" by simp
  have ne: "normalizeAddress (row_address r) = Some a \<Longrightarrow> a \<noteq> []"
    using normalizeAddress_not_empty [of "row_address r"] by auto
  have r1: "telcoin_balance r = None \<and> amount r = None \<longrightarrow> rowBalance r = Fin 0"
    by (simp add: rowBalance_def)
  have o1: "balance_formatted ow = None \<and> balance_o ow = None \<longrightarrow> ownerBalance ow = Fin 0"
    by (simp add: ownerBalance_def)
  have r2: "rowBalance r = Fin 0 \<longrightarrow>
      totalProcessed (processRow cfg lbl st r) = js_add (totalProcessed st) (Fin 0)"
    by (simp add: processRow_absorb absorb_def counted_def rowView_def js_add_zero)
  have o2: "ownerBalance ow = Fin 0 \<longrightarrow>
      totalProcessed (processOwner cfg lbl st ow) = js_add (totalProcessed st) (Fin 0)"
    by (simp add: processOwner_absorb absorb_def counted_def ownerView_def js_add_zero)
  have r3: "rowBalance r = Fin 0 \<and> normalizeAddress (row_address r) = Some a \<and> a \<notin> excl \<longrightarrow>
         processRow (dune_config excl cs) lbl st r =
           st\<lparr>totalProcessed := js_add (totalProcessed st) (Fin 0),
              holders_acc := holders_acc st @ [\<lparr>address = a, balance = 0, chain = lbl\<rparr>]\<rparr>"
    using ne by (auto simp: processRow_def dune_config_def Let_def)
  have r4: "rowBalance r = Fin 0 \<and> normalizeAddress (row_address r) = Some a \<and> a \<notin> excl
        \<and> r \<in> set rows \<longrightarrow>
      \<lparr>address = a, balance = 0, chain = chainLabel (dune_config excl cs) chainKey\<rparr>
        \<in> set (holders (processChain ns (dune_config excl cs) chainKey rows))"
  proof (intro impI, elim conjE)
    assume b: "rowBalance r = Fin 0" and a: "normalizeAddress (row_address r) = Some a"
      and ex: "a \<notin> excl" and mem: "r \<in> set rows"
    have "retailHolder (dune_config excl cs) (chainLabel (dune_config excl cs) chainKey) (rowView r)
        = Some \<lparr>address = a, balance = 0, chain = chainLabel (dune_config excl cs) chainKey\<rparr>"
      using a b ex ne by (simp add: retailHolder_def rowView_def classify_def dune_config_def)
    with mem show "\<lparr>address = a, balance = 0, chain = chainLabel (dune_config excl cs) chainKey\<rparr>
        \<in> set (holders (processChain ns (dune_config excl cs) chainKey rows))"
      by (force simp: holders_processChain set_sortDescending List.map_filter_def)
  qed
  have r5: "retailHolderCount (processChain ns (dune_config excl cs) chainKey rows) =
              length (holders (processChain ns (dune_config excl cs) chainKey rows))"
    by (simp add: processChain_def chainResult_def Let_def)
  from r1 r2 r3 r4 r5 o1 o2 show ?thesis by blast
qed


theorem absent_balance_is_zero_witness:
  "rowBalance \<lparr>row_address = Some ''0xAB'', telcoin_balance = None, amount = None\<rparr> = Fin 0 \<and>
   normalizeAddress (Some ''0xAB'') = Some ''0xab'' \<and>
   processRow (dune_config {} []) ''ethereum'' acc_init
      \<lparr>row_address = Some ''0xAB'', telcoin_balance = None, amount = None\<rparr> =
     \<lparr>holders_acc = [\<lparr>address = ''0xab'', balance = 0, chain = ''ethereum''\<rparr>],
      excludedAddresses_acc = [], excludedBalance = Fin 0, totalProcessed = Fin 0\<rparr> \<and>
   holders (processChain (\<lambda>x. []) (dune_config {} []) ''ethereum''
      [\<lparr>row_address = Some ''0xAB'', telcoin_balance = None, amount = None\<rparr>]) =
     [\<lparr>address = ''0xab'', balance = 0, chain = ''ethereum''\<rparr>] \<and>
   retailHolderCount (processChain (\<lambda>x. []) (dune_config {} []) ''ethereum''
      [\<lparr>row_address = Some ''0xAB'', telcoin_balance = None, amount = None\<rparr>]) = 1 \<and>
   ownerBalance \<lparr>owner_address = Some ''0xAB'', address_o = None,
                 balance_formatted = None, balance_o = None\<rparr> = Fin 0 \<and>
   totalProcessed (processOwner (moralis_config {} []) ''Ethereum'' acc_init
      \<lparr>owner_address = Some ''0xAB'', address_o = None,
       balance_formatted = None, balance_o = None\<rparr>) = Fin 0"
  using absent_balance_is_zero [where
      r = "\<lparr>row_address = Some ''0xAB'', telcoin_balance = None, amount = None\<rparr>"
      and a = "''0xab''" and excl = "{}" and cs = "[]" and cfg = "moralis_config {} []"
      and lbl = "''ethereum''" and st = acc_init and ns = "\<lambda>x. []" and chainKey = "''ethereum''"
      and rows = "[\<lparr>row_address = Some ''0xAB'', telcoin_balance = None, amount = None\<rparr>]"
      and ow = "\<lparr>owner_address = Some ''0xAB'', address_o = None,
                 balance_formatted = None, balance_o = None\<rparr>"]
  by (simp add: run_defs)

text \<open>
  Claim C10 as stated, for every row without a balance field, fails for an address on
  the deny list: the row is excluded and is no holder.
\<close>

theorem absent_balance_denylisted_counterexample:
  "rowBalance \<lparr>row_address = Some ''0xdead'', telcoin_balance = None, amount = None\<rparr> = Fin 0 \<and>
   holders (processChain (\<lambda>x. []) (dune_config {''0xdead''} []) ''ethereum''
      [\<lparr>row_address = Some ''0xdead'', telcoin_balance = None, amount = None\<rparr>]) = [] \<and>
   retailHolderCount (processChain (\<lambda>x. []) (dune_config {''0xdead''} []) ''ethereum''
      [\<lparr>row_address = Some ''0xdead'', telcoin_balance = None, amount = None\<rparr>]) = 0 \<and>
   excludedAddresses (processChain (\<lambda>x. []) (dune_config {''0xdead''} []) ''ethereum''
      [\<lparr>row_address = Some ''0xdead'', telcoin_balance = None, amount = None\<rparr>]) = [''0xdead'']"
  by (simp add: run_defs)


section \<open>Cross-chain combiner: the holders\<close>

lemma foldl_snoc_map: "foldl (\<lambda>hs h. hs @ [f h]) init xs = init @ map f xs"
  by (induction xs arbitrary: init) simp_all

lemma combineStep_holders:
  "combinedHolders (combineStep st e) =
     combinedHolders st @ map (\<lambda>h. h\<lparr>chain := label (snd e)\<rparr>) (holders (snd e))"
  by (simp add: combineStep_def Let_def foldl_snoc_map)

lemma foldl_combineStep_holders:
  "combinedHolders (foldl combineStep st es) =
     combinedHolders st @ concat (map (\<lambda>e. map (\<lambda>h. h\<lparr>chain := label (snd e)\<rparr>) (holders (snd e))) es)"
  by (induction es arbitrary: st) (simp_all add: combineStep_holders)

lemma combineStep_excluded:
  "excludedAddresses_c (combineStep st e) =
     foldl (\<lambda>s a. set_add a s) (excludedAddresses_c st) (excludedAddresses (snd e))"
  by (simp add: combineStep_def Let_def)

lemma foldl_combineStep_excluded:
  "excludedAddresses_c (foldl combineStep st es) =
     foldl (\<lambda>s a. set_add a s) (excludedAddresses_c st) (concat (map (\<lambda>e. excludedAddresses (snd e)) es))"
  by (induction es arbitrary: st) (simp_all add: combineStep_excluded)

text \<open>
  Claim C5, as amended. The combiner merges no holders: the combined holder list is the
  concatenation of the holder lists of the chains, each holder labelled with its chain,
  sorted descending by balance. An address occurs in it as often as it occurs in the
  lists of the chains together, and the combined count is the sum of the counts. Only
  \<open>excludedAddresses\<close> is a set: the union of the excluded addresses of the chains, each
  address once.
\<close>

theorem combined_holders_not_merged:
  "holders (buildCombinedDataset ns chainResults) =
     sortDescending
       (concat (map (\<lambda>e. map (\<lambda>h. h\<lparr>chain := label (snd e)\<rparr>) (holders (snd e))) chainResults)) \<and>
   mset (map address (holders (buildCombinedDataset ns chainResults))) =
     mset (concat (map (\<lambda>e. map address (holders (snd e))) chainResults)) \<and>
   retailHolderCount (buildCombinedDataset ns chainResults) =
     sum_list (map (\<lambda>e. length (holders (snd e))) chainResults) \<and>
   set (excludedAddresses (buildCombinedDataset ns chainResults)) =
     \<Union> (set (map (\<lambda>e. set (excludedAddresses (snd e))) chainResults)) \<and>
   distinct (excludedAddresses (buildCombinedDataset ns chainResults))"
proof -
  let ?cat = "concat (map (\<lambda>e. map (\<lambda>h. h\<lparr>chain := label (snd e)\<rparr>) (holders (snd e))) chainResults)"
  have h: "holders (buildCombinedDataset ns chainResults) = sortDescending ?cat"
    by (simp add: buildCombinedDataset_def Let_def foldl_combineStep_holders combined_init_def)
  have m: "map address ?cat = concat (map (\<lambda>e. map address (holders (snd e))) chainResults)"
    by (simp add: map_concat o_def)
  have "mset (map address (sortDescending ?cat)) = mset (map address ?cat)"
    by (simp add: mset_sortDescending)
  then have a: "mset (map address (holders (buildCombinedDataset ns chainResults))) =
     mset (concat (map (\<lambda>e. map address (holders (snd e))) chainResults))"
    unfolding h m .
  have "length ?cat = sum_list (map (\<lambda>e. length (holders (snd e))) chainResults)"
    by (simp add: length_concat o_def)
  then have c: "retailHolderCount (buildCombinedDataset ns chainResults) =
     sum_list (map (\<lambda>e. length (holders (snd e))) chainResults)"
    by (simp add: buildCombinedDataset_def Let_def foldl_combineStep_holders combined_init_def
        length_sortDescending)
  have ex: "excludedAddresses (buildCombinedDataset ns chainResults) =
      foldl (\<lambda>s a. set_add a s) [] (concat (map (\<lambda>e. excludedAddresses (snd e)) chainResults))"
    by (simp add: buildCombinedDataset_def Let_def foldl_combineStep_excluded combined_init_def)
  have s: "set (excludedAddresses (buildCombinedDataset ns chainResults)) =
     \<Union> (set (map (\<lambda>e. set (excludedAddresses (snd e))) chainResults))"
    unfolding ex by (simp add: set_foldl_set_add)
  have d: "distinct (excludedAddresses (buildCombinedDataset ns chainResults))"
    unfolding ex by (simp add: distinct_foldl_set_add)
  from h a c s d show ?thesis by blast
qed


text \<open>
  Claim C5 as stated, that no address occurs twice among the combined holders, fails for
  an address that holds a balance on two chains: both holders are in the combined list.
\<close>

theorem combined_duplicate_address_counterexample:
  "map address (holders (buildCombinedDataset (\<lambda>x. [])
      [(''ethereum'', processChain (\<lambda>x. []) (dune_config {} []) ''ethereum''
          [\<lparr>row_address = Some ''0xabc'', telcoin_balance = Some (Fin 100), amount = None\<rparr>]),
       (''polygon'', processChain (\<lambda>x. []) (dune_config {} []) ''polygon''
          [\<lparr>row_address = Some ''0xABC'', telcoin_balance = Some (Fin 40), amount = None\<rparr>])]))
     = [''0xabc'', ''0xabc''] \<and>
   holders (buildCombinedDataset (\<lambda>x. [])
      [(''ethereum'', processChain (\<lambda>x. []) (dune_config {} []) ''ethereum''
          [\<lparr>row_address = Some ''0xabc'', telcoin_balance = Some (Fin 100), amount = None\<rparr>]),
       (''polygon'', processChain (\<lambda>x. []) (dune_config {} []) ''polygon''
          [\<lparr>row_address = Some ''0xABC'', telcoin_balance = Some (Fin 40), amount = None\<rparr>])])
     = [\<lparr>address = ''0xabc'', balance = 100, chain = ''ethereum''\<rparr>,
        \<lparr>address = ''0xabc'', balance = 40, chain = ''polygon''\<rparr>] \<and>
   \<not> distinct (map address (holders (buildCombinedDataset (\<lambda>x. [])
      [(''ethereum'', processChain (\<lambda>x. []) (dune_config {} []) ''ethereum''
          [\<lparr>row_address = Some ''0xabc'', telcoin_balance = Some (Fin 100), amount = None\<rparr>]),
       (''polygon'', processChain (\<lambda>x. []) (dune_config {} []) ''polygon''
          [\<lparr>row_address = Some ''0xABC'', telcoin_balance = Some (Fin 40), amount = None\<rparr>])])))"
  by (simp add: run_defs buildCombinedDataset_def combineStep_def combined_init_def)


section \<open>Distribution histogram\<close>













section \<open>Fixed-point printing\<close>







lemma digits_not_Nil: "digits n \<noteq> []"
  by (subst digits.simps) simp





section \<open>Top-N shares\<close>













end
